theory Spec2Isabelle
  imports Main "HOL-Library.AList"
begin

section \<open>Python values used by \<open>ntlmpool.py\<close>\<close>

text \<open>
  Strings are lists of characters. HTTP header text reaches Python decoded as Latin-1, one
  character per byte, so \<open>take\<close>, \<open>drop\<close> and \<open>length\<close> count what the slices
  \<open>s[:5]\<close> and \<open>s[5:]\<close> of the source count.

  Exceptions are values. \<open>IndexError\<close>, \<open>KeyError\<close> and \<open>Exception\<close> are the three
  that the module itself can raise (\<open>user_parts[1]\<close>, \<open>reshdr[resp_header]\<close> and the
  three \<open>raise Exception(...)\<close> statements); \<open>External\<close> stands for any exception that
  comes out of a collaborator the module calls (the HTTPS connection or the NTLM codec).
\<close>

datatype error =
    IndexError
  | KeyError string
  | Exception string
  | External string

definition backslash :: char where
  "backslash = CHR 0x5C"

text \<open>
  \<open>str.split(sep, maxsplit)\<close> for a non-empty separator: scan from the left, cut at each
  occurrence of \<open>sep\<close>, at most \<open>maxsplit\<close> times (\<open>-1\<close>: no limit). \<open>cur\<close> is
  the piece being collected.
\<close>

function split_from :: "string \<Rightarrow> int \<Rightarrow> string \<Rightarrow> string \<Rightarrow> string list" where
  "split_from sep n cur [] = [cur]"
| "split_from sep n cur (c # cs) =
     (if n \<noteq> 0 \<and> sep \<noteq> [] \<and> take (length sep) (c # cs) = sep
      then cur # split_from sep (n - 1) [] (drop (length sep) (c # cs))
      else split_from sep n (cur @ [c]) cs)"
  by pat_completeness auto
termination
  by (relation "measure (\<lambda>(sep, n, cur, s). length s)") auto

definition split :: "string \<Rightarrow> string \<Rightarrow> int \<Rightarrow> string list" where
  "split s sep maxsplit = split_from sep maxsplit [] s"

text \<open>
  \<open>str.upper()\<close> on the ASCII letters; every other character is kept. (Python also maps
  letters outside ASCII, which an 8-bit character cannot express in general; no general
  statement below depends on which characters \<open>upper\<close> changes.)
\<close>

definition upper_char :: "char \<Rightarrow> char" where
  "upper_char c =
     (if (97::nat) \<le> of_char c \<and> of_char c \<le> (122::nat)
      then char_of (of_char c - (32::nat)) else c)"

definition upper :: "string \<Rightarrow> string" where
  "upper s = map upper_char s"

text \<open>Decimal text of an integer, as \<open>f'{res.status}'\<close> formats it.\<close>

function digits :: "nat \<Rightarrow> string" where
  "digits n =
     (if n < 10 then [char_of (48 + n)]
      else digits (n div 10) @ [char_of (48 + n mod 10)])"
  by pat_completeness auto
termination
  by (relation "measure id") auto

definition str_int :: "int \<Rightarrow> string" where
  "str_int i = (if i < 0 then CHR ''-'' # digits (nat (- i)) else digits (nat i))"

text \<open>
  A \<open>dict\<close> of strings is an association list with distinct keys in insertion order:
  \<open>d[k] = v\<close> is \<open>AList.update k v d\<close> (an existing key keeps its place, a new one goes
  last), \<open>dict(pairs)\<close> stores the pairs from left to right, and \<open>d[k]\<close> raises
  \<open>KeyError\<close> for a missing key.
\<close>

type_synonym dict = "(string \<times> string) list"

definition dict_of :: "(string \<times> string) list \<Rightarrow> dict" where
  "dict_of kvs = foldl (\<lambda>d kv. AList.update (fst kv) (snd kv) d) [] kvs"

definition getitem :: "dict \<Rightarrow> string \<Rightarrow> error + string" where
  "getitem d k = (case map_of d k of None \<Rightarrow> Inl (KeyError k) | Some v \<Rightarrow> Inr v)"

section \<open>The world outside the pool\<close>

text \<open>
  Connection objects and response objects live in a store and are named by their index.
  A connection records the requests sent on it and whether its socket is open; a response
  object carries \<open>fp\<close>, its reference to the connection's socket, which closing the
  response would close.
\<close>

record request =
  req_method :: string
  req_url :: string
  req_body :: "string option"
  req_headers :: dict

record reply =
  status :: int
  reason :: string
  getheaders :: "(string \<times> string) list"
  body :: string

record response = reply +
  unread :: string
  fp :: "nat option"

record connection =
  conn_host :: string
  conn_port :: int
  sent :: "request list"
  sock_open :: bool

record world =
  conns :: "connection list"
  resps :: "response list"

section \<open>The pool and its constructor\<close>

text \<open>
  \<open>NTLMConnectionPool\<close> extends \<open>HTTPSConnectionPool\<close>, which is not part of this
  module: \<open>super().__init__(*args, **kwargs)\<close> is taken as the base object it builds.
\<close>

record HTTPSConnectionPool =
  host :: string
  port :: int
  num_connections :: int

record NTLMConnectionPool = HTTPSConnectionPool +
  authurl :: string
  rawuser :: string
  domain :: string
  user :: string
  pw :: string

text \<open>
  \<open>__init__\<close> (lines 33 to 45). The world is threaded through to show what the
  constructor does to it. \<open>user_parts[1]\<close> raises \<open>IndexError\<close> when the split yields
  one piece; \<open>user_parts[0]\<close> always exists.
\<close>

definition init ::
  "string \<Rightarrow> string \<Rightarrow> string \<Rightarrow> HTTPSConnectionPool \<Rightarrow> world
     \<Rightarrow> (error + NTLMConnectionPool) \<times> world" where
  "init usr pwd aurl base w =
     (let user_parts = split usr [backslash] 1 in
      case user_parts of
        p0 # p1 # _ \<Rightarrow>
          (Inr \<lparr>host = host base, port = port base,
                num_connections = num_connections base,
                authurl = aurl, rawuser = usr, domain = upper p0, user = p1, pw = pwd\<rparr>, w)
      | _ \<Rightarrow> (Inl IndexError, w))"

section \<open>Collaborators\<close>

text \<open>
  The server as the connection sees it: for the requests sent so far on a connection (the
  newest last), either \<open>conn.request\<close> raises, or \<open>conn.getresponse\<close> raises, or a
  reply arrives. The NTLM codec (\<open>from ntlm import ntlm\<close>) is a record of its three
  functions; each returns its value or the description of the exception it raised.
\<close>

datatype exchange = RequestRaises string | ResponseRaises string | Replies reply

type_synonym transport = "request list \<Rightarrow> exchange"

record ntlm =
  create_NTLM_NEGOTIATE_MESSAGE :: "string \<Rightarrow> string + string"
  parse_NTLM_CHALLENGE_MESSAGE :: "string \<Rightarrow> string + (string \<times> int)"
  create_NTLM_AUTHENTICATE_MESSAGE ::
    "string \<Rightarrow> string \<Rightarrow> string \<Rightarrow> string \<Rightarrow> int \<Rightarrow> string + string"

text \<open>
  \<open>HTTPSConnection(host=..., port=...)\<close> makes a connection object; its socket is
  opened by the first request. The module never calls \<open>close\<close>.
\<close>

definition HTTPSConnection :: "string \<Rightarrow> int \<Rightarrow> world \<Rightarrow> nat \<times> world" where
  "HTTPSConnection h pt w =
     (length (conns w),
      w\<lparr>conns := conns w @ [\<lparr>conn_host = h, conn_port = pt, sent = [], sock_open = False\<rparr>]\<rparr>)"

definition conn_request ::
  "transport \<Rightarrow> nat \<Rightarrow> string \<Rightarrow> string \<Rightarrow> string option \<Rightarrow> dict \<Rightarrow> world
     \<Rightarrow> (error + unit) \<times> world" where
  "conn_request srv c m u b hs w =
     (let cn = conns w ! c;
          r = \<lparr>req_method = m, req_url = u, req_body = b, req_headers = hs\<rparr>
      in case srv (sent cn @ [r]) of
           RequestRaises e \<Rightarrow> (Inl (External e), w)
         | _ \<Rightarrow> (Inr (), w\<lparr>conns := (conns w)[c := cn\<lparr>sent := sent cn @ [r], sock_open := True\<rparr>]\<rparr>))"

definition conn_getresponse :: "transport \<Rightarrow> nat \<Rightarrow> world \<Rightarrow> (error + nat) \<times> world" where
  "conn_getresponse srv c w =
     (case srv (sent (conns w ! c)) of
        Replies rp \<Rightarrow>
          (Inr (length (resps w)),
           w\<lparr>resps := resps w @
                [\<lparr>status = status rp, reason = reason rp, getheaders = getheaders rp,
                  body = body rp, unread = body rp, fp = Some c\<rparr>]\<rparr>)
      | ResponseRaises e \<Rightarrow> (Inl (External e), w)
      | RequestRaises e \<Rightarrow> (Inl (External e), w))"

text \<open>\<open>res.read(n)\<close> and \<open>res.read()\<close> consume the body; \<open>res.fp = v\<close> stores \<open>v\<close>.\<close>

definition res_read :: "nat \<Rightarrow> nat option \<Rightarrow> world \<Rightarrow> string \<times> world" where
  "res_read r n w =
     (let rs = resps w ! r;
          k = (case n of None \<Rightarrow> length (unread rs) | Some k \<Rightarrow> k)
      in (take k (unread rs), w\<lparr>resps := (resps w)[r := rs\<lparr>unread := drop k (unread rs)\<rparr>]\<rparr>))"

definition set_fp :: "nat \<Rightarrow> nat option \<Rightarrow> world \<Rightarrow> world" where
  "set_fp r v w = w\<lparr>resps := (resps w)[r := (resps w ! r)\<lparr>fp := v\<rparr>]\<rparr>"

section \<open>The handshake\<close>

text \<open>
  Lines 77 to 82: split the header value on \<open>', '\<close> and run the loop over the pieces.
  The loop has no \<open>break\<close>: every piece whose first five characters are \<open>'NTLM '\<close>
  overwrites \<open>auth_header_value\<close>.
\<close>

definition is_ntlm :: "string \<Rightarrow> bool" where
  "is_ntlm s = (take 5 s = ''NTLM '')"

fun scan_values :: "string option \<Rightarrow> string list \<Rightarrow> string option" where
  "scan_values auth_header_value [] = auth_header_value"
| "scan_values auth_header_value (s # ss) =
     scan_values (if is_ntlm s then Some (drop 5 s) else auth_header_value) ss"

definition challenge_token :: "string \<Rightarrow> string option" where
  "challenge_token hv = scan_values None (split hv '', '' (- 1))"

text \<open>
  \<open>_new_conn\<close> (lines 47 to 111). It returns the connection or the exception, the pool
  (whose counter it has incremented) and the world. The \<open>log.debug\<close> calls only format
  values and are left out, except for the \<open>res.read\<close> calls inside them, which consume
  the response body. The \<open>raise\<close> of line 83 reads \<open>reshdr[resp_header]\<close> again; the
  dictionary has not changed since line 77, so it is the value \<open>hv\<close> read there.
\<close>

definition new_conn ::
  "ntlm \<Rightarrow> transport \<Rightarrow> NTLMConnectionPool \<Rightarrow> world
     \<Rightarrow> (error + nat) \<times> NTLMConnectionPool \<times> world" where
  "new_conn nt srv self0 w0 =
     (let self = self0\<lparr>num_connections := num_connections self0 + 1\<rparr>;
          req_header = ''Authorization'';
          resp_header = ''www-authenticate'';
          (conn, w1) = HTTPSConnection (host self) (port self) w0
      in
      case create_NTLM_NEGOTIATE_MESSAGE nt (rawuser self) of
        Inl e \<Rightarrow> (Inl (External e), self, w1)
      | Inr neg \<Rightarrow>
      let headers = [(''Connection'', ''Keep-Alive''), (req_header, ''NTLM '' @ neg)] in
      case conn_request srv conn ''GET'' (authurl self) None headers w1 of
        (Inl e, w2) \<Rightarrow> (Inl e, self, w2)
      | (Inr _, w2) \<Rightarrow>
      case conn_getresponse srv conn w2 of
        (Inl e, w3) \<Rightarrow> (Inl e, self, w3)
      | (Inr res, w3) \<Rightarrow>
      let reshdr = dict_of (getheaders (resps w3 ! res));
          w4 = snd (res_read res (Some 100) w3);
          w5 = set_fp res None w4
      in
      case getitem reshdr resp_header of
        Inl e \<Rightarrow> (Inl e, self, w5)
      | Inr hv \<Rightarrow>
      case challenge_token hv of
        None \<Rightarrow>
          (Inl (Exception (''Unexpected '' @ resp_header @ '' response header: '' @ hv)),
           self, w5)
      | Some auth_header_value \<Rightarrow>
      case parse_NTLM_CHALLENGE_MESSAGE nt auth_header_value of
        Inl e \<Rightarrow> (Inl (External e), self, w5)
      | Inr (ServerChallenge, NegotiateFlags) \<Rightarrow>
      case create_NTLM_AUTHENTICATE_MESSAGE nt ServerChallenge (user self) (domain self)
             (pw self) NegotiateFlags of
        Inl e \<Rightarrow> (Inl (External e), self, w5)
      | Inr auth_msg \<Rightarrow>
      let headers = AList.update req_header (''NTLM '' @ auth_msg) headers in
      case conn_request srv conn ''GET'' (authurl self) None headers w5 of
        (Inl e, w6) \<Rightarrow> (Inl e, self, w6)
      | (Inr _, w6) \<Rightarrow>
      case conn_getresponse srv conn w6 of
        (Inl e, w7) \<Rightarrow> (Inl e, self, w7)
      | (Inr res2, w7) \<Rightarrow>
      let w8 = snd (res_read res2 None w7);
          st = status (resps w8 ! res2)
      in
      if st \<noteq> 200 then
        (if st = 401 then
           (Inl (Exception ''Server rejected request: wrong username or password''), self, w8)
         else
           (Inl (Exception (''Wrong server response: '' @ str_int st @ '' '' @
                            reason (resps w8 ! res2))), self, w8))
      else (Inr conn, self, set_fp res2 None w8))"

text \<open>The request of lines 65 and 98 for a given \<open>Authorization\<close> token.\<close>

abbreviation handshake_get :: "NTLMConnectionPool \<Rightarrow> string \<Rightarrow> request" where
  "handshake_get self token \<equiv>
     \<lparr>req_method = ''GET'', req_url = authurl self, req_body = None,
      req_headers = [(''Connection'', ''Keep-Alive''), (''Authorization'', ''NTLM '' @ token)]\<rparr>"

section \<open>The request wrapper\<close>

text \<open>
  \<open>urlopen\<close> (lines 113 to 121). A header dictionary the caller passes is an object
  that caller and callee share, so dictionaries live in a store and are named by their
  index; \<open>headers=None\<close> is \<open>None\<close>, and \<open>headers = {}\<close> makes a new object.
  \<open>super().urlopen\<close> belongs to the generic pool and is a parameter: it receives the
  seven arguments and the store. A caller who leaves an argument out passes the default
  of the signature (\<open>body=None\<close>, \<open>headers=None\<close>, \<open>retries=3\<close>,
  \<open>redirect=True\<close>, \<open>assert_same_host=True\<close>).
\<close>

record urlopen_call =
  call_method :: string
  call_url :: string
  call_body :: "string option"
  call_headers :: nat
  call_retries :: int
  call_redirect :: bool
  call_assert_same_host :: bool

definition urlopen ::
  "(urlopen_call \<Rightarrow> dict list \<Rightarrow> 'r \<times> dict list) \<Rightarrow> string \<Rightarrow> string \<Rightarrow> string option
     \<Rightarrow> nat option \<Rightarrow> int \<Rightarrow> bool \<Rightarrow> bool \<Rightarrow> dict list \<Rightarrow> 'r \<times> dict list" where
  "urlopen super_urlopen meth url bdy hdrs retries redirect assert_same_host h0 =
     (let (headers, h1) = (case hdrs of None \<Rightarrow> (length h0, h0 @ [[]]) | Some r \<Rightarrow> (r, h0));
          h2 = h1[headers := AList.update ''Connection'' ''Keep-Alive'' (h1 ! headers)]
      in super_urlopen
           \<lparr>call_method = meth, call_url = url, call_body = bdy, call_headers = headers,
            call_retries = retries, call_redirect = redirect,
            call_assert_same_host = assert_same_host\<rparr> h2)"

section \<open>A scripted server\<close>

text \<open>
  Concrete collaborators for running the handshake: a server that answers the \<open>n\<close>-th
  request on a connection with the \<open>n\<close>-th reply of a script, a codec whose tokens show
  what they were built from, and a pool.
\<close>

definition scripted :: "reply list \<Rightarrow> transport" where
  "scripted script reqs =
     (if reqs \<noteq> [] \<and> length reqs \<le> length script then Replies (script ! (length reqs - 1))
      else ResponseRaises ''connection reset'')"

definition example_codec :: ntlm where
  "example_codec =
     \<lparr>create_NTLM_NEGOTIATE_MESSAGE = (\<lambda>u. Inr (''neg:'' @ u)),
      parse_NTLM_CHALLENGE_MESSAGE = (\<lambda>t. Inr (t, 7)),
      create_NTLM_AUTHENTICATE_MESSAGE = (\<lambda>sc u d p f. Inr (''auth:'' @ sc @ '':'' @ d @ '':'' @ u))\<rparr>"

definition example_pool :: NTLMConnectionPool where
  "example_pool =
     \<lparr>host = ''example.org'', port = 443, num_connections = 0, authurl = ''/auth'',
      rawuser = ''corp'' @ [backslash] @ ''al'', domain = ''CORP'', user = ''al'',
      pw = ''secret''\<rparr>"

definition challenge_reply :: "string \<Rightarrow> reply" where
  "challenge_reply hv =
     \<lparr>status = 401, reason = ''Unauthorized'',
      getheaders = [(''www-authenticate'', hv)], body = ''denied''\<rparr>"

definition final_reply :: "int \<Rightarrow> string \<Rightarrow> reply" where
  "final_reply st rs = \<lparr>status = st, reason = rs, getheaders = [], body = ''page''\<rparr>"

section \<open>Splitting\<close>

lemma split_from_absent:
  "sep \<notin> set s \<Longrightarrow> split_from [sep] n cur s = [cur @ s]"
  by (induction s arbitrary: cur) auto




lemma split_none:
  "backslash \<notin> set s \<Longrightarrow> split s [backslash] n = [s]"
  by (simp add: split_def split_from_absent)

section \<open>The constructor\<close>

text \<open>
  C2. An identifier without a backslash makes the constructor fail: \<open>user_parts\<close> has one
  element and \<open>user_parts[1]\<close> raises \<open>IndexError\<close>, the module's malformed-credential
  failure. It is raised by the constructor itself, no pool object results, and the world
  is returned as it was: no connection has been created and no request sent.
\<close>

theorem init_malformed:
  "backslash \<notin> set usr \<Longrightarrow> init usr pwd aurl base w = (Inl IndexError, w)"
  by (simp add: init_def split_none)

theorem init_malformed_witness:
  "backslash \<notin> set ''alice'' \<and>
   init ''alice'' ''secret'' ''/auth'' \<lparr>host = ''h'', port = 443, num_connections = 0\<rparr>
        \<lparr>conns = [], resps = []\<rparr>
     = (Inl IndexError, \<lparr>conns = [], resps = []\<rparr>)"
  using init_malformed [of "''alice''" "''secret''" "''/auth''"
      "\<lparr>host = ''h'', port = 443, num_connections = 0\<rparr>" "\<lparr>conns = [], resps = []\<rparr>"]
  by (simp add: backslash_def)



section \<open>Dictionaries and the scan of the header\<close>

lemma scan_values_filter:
  "scan_values acc ss =
     (case filter is_ntlm ss of [] \<Rightarrow> acc | t # ts \<Rightarrow> Some (drop 5 (last (t # ts))))"
  by (induction ss arbitrary: acc) (auto split: list.splits)

lemma scan_values_Some: "scan_values (Some a) ss \<noteq> None"
  by (induction ss arbitrary: a) auto

lemma scan_values_None:
  "scan_values None ss = None \<longleftrightarrow> (\<forall>s\<in>set ss. \<not> is_ntlm s)"
  by (induction ss) (auto simp: scan_values_Some)

lemma map_of_foldl_update:
  "map_of (foldl (\<lambda>d kv. AList.update (fst kv) (snd kv) d) d0 kvs) k =
     (case map_of (rev kvs) k of None \<Rightarrow> map_of d0 k | Some v \<Rightarrow> Some v)"
  by (induction kvs arbitrary: d0) (auto simp: update_conv' map_add_def split: option.splits)

lemma map_of_dict_of: "map_of (dict_of kvs) k = map_of (rev kvs) k"
  by (simp add: dict_of_def map_of_foldl_update split: option.splits)

lemma getitem_missing:
  assumes "k \<notin> fst ` set kvs"
  shows "getitem (dict_of kvs) k = Inl (KeyError k)"
proof -
  from assms have "map_of (rev kvs) k = None"
    by (simp add: map_of_eq_None_iff)
  then show ?thesis
    by (simp add: getitem_def map_of_dict_of)
qed

lemma getitem_Inl: "getitem d k = Inl e \<Longrightarrow> e = KeyError k"
  by (auto simp: getitem_def split: option.splits)

section \<open>Runs of the handshake\<close>

lemmas world_ops =
  HTTPSConnection_def conn_request_def conn_getresponse_def res_read_def set_fp_def

lemma new_conn_resolved:
  assumes "create_NTLM_NEGOTIATE_MESSAGE nt (rawuser p) = Inr neg"
    and "srv [handshake_get p neg] = Replies rp1"
    and "getitem (dict_of (getheaders rp1)) ''www-authenticate'' = Inr hv"
    and "challenge_token hv = Some tok"
    and "parse_NTLM_CHALLENGE_MESSAGE nt tok = Inr (sc, fl)"
    and "create_NTLM_AUTHENTICATE_MESSAGE nt sc (user p) (domain p) (pw p) fl = Inr auth"
    and "srv [handshake_get p neg, handshake_get p auth] = Replies rp2"
  shows "new_conn nt srv p w =
     (if status rp2 = 200 then Inr (length (conns w))
      else if status rp2 = 401
        then Inl (Exception ''Server rejected request: wrong username or password'')
      else Inl (Exception (''Wrong server response: '' @ str_int (status rp2) @ '' '' @
                           reason rp2)),
      p\<lparr>num_connections := num_connections p + 1\<rparr>,
      w\<lparr>conns := conns w @
           [\<lparr>conn_host = host p, conn_port = port p,
             sent = [handshake_get p neg, handshake_get p auth], sock_open = True\<rparr>],
         resps := resps w @
           [\<lparr>status = status rp1, reason = reason rp1, getheaders = getheaders rp1,
             body = body rp1, unread = drop 100 (body rp1), fp = None\<rparr>,
            \<lparr>status = status rp2, reason = reason rp2, getheaders = getheaders rp2,
             body = body rp2, unread = [],
             fp = (if status rp2 = 200 then None else Some (length (conns w)))\<rparr>]\<rparr>)"
  using assms
  by (simp add: new_conn_def world_ops Let_def nth_append list_update_append)

lemma new_conn_no_header:
  assumes "create_NTLM_NEGOTIATE_MESSAGE nt (rawuser p) = Inr neg"
    and "srv [handshake_get p neg] = Replies rp1"
    and "getitem (dict_of (getheaders rp1)) ''www-authenticate'' = Inl e"
  shows "new_conn nt srv p w =
     (Inl e, p\<lparr>num_connections := num_connections p + 1\<rparr>,
      w\<lparr>conns := conns w @
           [\<lparr>conn_host = host p, conn_port = port p,
             sent = [handshake_get p neg], sock_open = True\<rparr>],
         resps := resps w @
           [\<lparr>status = status rp1, reason = reason rp1, getheaders = getheaders rp1,
             body = body rp1, unread = drop 100 (body rp1), fp = None\<rparr>]\<rparr>)"
  using assms
  by (simp add: new_conn_def world_ops Let_def nth_append list_update_append)

lemma new_conn_no_token:
  assumes "create_NTLM_NEGOTIATE_MESSAGE nt (rawuser p) = Inr neg"
    and "srv [handshake_get p neg] = Replies rp1"
    and "getitem (dict_of (getheaders rp1)) ''www-authenticate'' = Inr hv"
    and "challenge_token hv = None"
  shows "new_conn nt srv p w =
     (Inl (Exception (''Unexpected www-authenticate response header: '' @ hv)),
      p\<lparr>num_connections := num_connections p + 1\<rparr>,
      w\<lparr>conns := conns w @
           [\<lparr>conn_host = host p, conn_port = port p,
             sent = [handshake_get p neg], sock_open = True\<rparr>],
         resps := resps w @
           [\<lparr>status = status rp1, reason = reason rp1, getheaders = getheaders rp1,
             body = body rp1, unread = drop 100 (body rp1), fp = None\<rparr>]\<rparr>)"
  using assms
  by (simp add: new_conn_def world_ops Let_def nth_append list_update_append)

lemma new_conn_success_inv:
  assumes "fst (new_conn nt srv p w) = Inr c"
  shows "\<exists>neg rp1 hv tok sc fl auth rp2.
     create_NTLM_NEGOTIATE_MESSAGE nt (rawuser p) = Inr neg \<and>
     srv [handshake_get p neg] = Replies rp1 \<and>
     getitem (dict_of (getheaders rp1)) ''www-authenticate'' = Inr hv \<and>
     challenge_token hv = Some tok \<and>
     parse_NTLM_CHALLENGE_MESSAGE nt tok = Inr (sc, fl) \<and>
     create_NTLM_AUTHENTICATE_MESSAGE nt sc (user p) (domain p) (pw p) fl = Inr auth \<and>
     srv [handshake_get p neg, handshake_get p auth] = Replies rp2 \<and> status rp2 = 200"
  using assms
  by (simp add: new_conn_def world_ops Let_def nth_append list_update_append
      split: sum.splits exchange.splits prod.splits if_splits option.splits)

lemma new_conn_unexpected_inv:
  assumes "fst (new_conn nt srv p w) =
             Inl (Exception (''Unexpected www-authenticate response header: '' @ x))"
  shows "\<exists>neg rp1.
     create_NTLM_NEGOTIATE_MESSAGE nt (rawuser p) = Inr neg \<and>
     srv [handshake_get p neg] = Replies rp1 \<and>
     getitem (dict_of (getheaders rp1)) ''www-authenticate'' = Inr x \<and>
     challenge_token x = None"
  using assms
  by (auto simp add: new_conn_def world_ops Let_def nth_append list_update_append
      split: sum.splits exchange.splits prod.splits if_splits option.splits
      dest: getitem_Inl)

text \<open>The example collaborators, evaluated.\<close>

lemma example_negotiate:
  "create_NTLM_NEGOTIATE_MESSAGE example_codec (rawuser example_pool) =
     Inr (''neg:'' @ rawuser example_pool)"
  by (simp add: example_codec_def)

lemma example_parse: "parse_NTLM_CHALLENGE_MESSAGE example_codec tok = Inr (tok, 7)"
  by (simp add: example_codec_def)

lemma example_authenticate:
  "create_NTLM_AUTHENTICATE_MESSAGE example_codec sc (user example_pool) (domain example_pool)
     (pw example_pool) fl = Inr (''auth:'' @ sc @ '':CORP:al'')"
  by (simp add: example_codec_def example_pool_def)

lemma scripted_first: "scripted (r1 # rs) [q1] = Replies r1"
  by (simp add: scripted_def)

lemma scripted_second: "scripted (r1 # r2 # rs) [q1, q2] = Replies r2"
  by (simp add: scripted_def)

lemma example_header:
  "getitem (dict_of (getheaders (challenge_reply hv))) ''www-authenticate'' = Inr hv"
  by (simp add: challenge_reply_def dict_of_def getitem_def)

section \<open>The challenge token\<close>

text \<open>
  C1, as stated, fails: with two pieces prefixed \<open>NTLM \<close> the loop keeps the second.
  The header value \<open>NTLM AAA, NTLM BBB\<close> splits into the pieces \<open>NTLM AAA\<close> and
  \<open>NTLM BBB\<close>; the token is \<open>BBB\<close>, not the \<open>AAA\<close> of the first piece.
\<close>

theorem challenge_token_first_counterexample:
  "split ''NTLM AAA, NTLM BBB'' '', '' (- 1) = [''NTLM AAA'', ''NTLM BBB''] \<and>
   challenge_token ''NTLM AAA, NTLM BBB'' = Some ''BBB'' \<and>
   challenge_token ''NTLM AAA, NTLM BBB'' \<noteq>
     Some (drop 5 (hd (filter is_ntlm (split ''NTLM AAA, NTLM BBB'' '', '' (- 1)))))"
  by (simp add: challenge_token_def split_def is_ntlm_def)

text \<open>
  C1, amended. The header value is split on \<open>', '\<close>; the challenge token is what follows
  the five characters \<open>NTLM \<close> in the LAST piece that starts with exactly these
  characters, and there is no token when no piece does. Earlier pieces with the prefix are
  overwritten.
\<close>

theorem challenge_token_last:
  "challenge_token hv =
     (case filter is_ntlm (split hv '', '' (- 1)) of
        [] \<Rightarrow> None
      | t # ts \<Rightarrow> Some (drop 5 (last (t # ts))))"
  by (simp add: challenge_token_def scan_values_filter)

section \<open>How the handshake fails and resolves\<close>



text \<open>
  C5. When the first reply carries the header with value \<open>hv\<close> and no piece of \<open>hv\<close>
  starts with \<open>NTLM \<close>, the handshake raises an exception whose message ends with the
  raw value \<open>hv\<close>. The connection it created has carried the first request only, and
  no other connection of the world has been touched.
\<close>

theorem new_conn_missing_challenge:
  assumes "create_NTLM_NEGOTIATE_MESSAGE nt (rawuser p) = Inr neg"
    and "srv [handshake_get p neg] = Replies rp1"
    and "getitem (dict_of (getheaders rp1)) ''www-authenticate'' = Inr hv"
    and "\<forall>s\<in>set (split hv '', '' (- 1)). \<not> is_ntlm s"
  shows "fst (new_conn nt srv p w) =
           Inl (Exception (''Unexpected www-authenticate response header: '' @ hv)) \<and>
         conns (snd (snd (new_conn nt srv p w))) =
           conns w @ [\<lparr>conn_host = host p, conn_port = port p,
                       sent = [handshake_get p neg], sock_open = True\<rparr>]"
proof -
  from assms(4) have "challenge_token hv = None"
    by (simp add: challenge_token_def scan_values_None)
  from new_conn_no_token [where srv = srv and w = w, OF assms(1) assms(2) assms(3) this]
  show ?thesis
    by simp
qed

theorem new_conn_missing_challenge_witness:
  "split ''Negotiate, Basic realm=x'' '', '' (- 1) = [''Negotiate'', ''Basic realm=x''] \<and>
   \<not> is_ntlm ''Negotiate'' \<and> \<not> is_ntlm ''Basic realm=x'' \<and>
   fst (new_conn example_codec (scripted [challenge_reply ''Negotiate, Basic realm=x''])
          example_pool \<lparr>conns = [], resps = []\<rparr>) =
     Inl (Exception ''Unexpected www-authenticate response header: Negotiate, Basic realm=x'') \<and>
   map sent (conns (snd (snd (new_conn example_codec
          (scripted [challenge_reply ''Negotiate, Basic realm=x''])
          example_pool \<lparr>conns = [], resps = []\<rparr>)))) =
     [[handshake_get example_pool (''neg:'' @ rawuser example_pool)]]"
proof -
  let ?q1 = "handshake_get example_pool (''neg:'' @ rawuser example_pool)"
  have none: "\<forall>s\<in>set (split ''Negotiate, Basic realm=x'' '', '' (- 1)). \<not> is_ntlm s"
    by (simp add: split_def is_ntlm_def)
  have pieces: "split ''Negotiate, Basic realm=x'' '', '' (- 1) =
      [''Negotiate'', ''Basic realm=x'']"
    by (simp add: split_def)
  have prefixes: "\<not> is_ntlm ''Negotiate'' \<and> \<not> is_ntlm ''Basic realm=x''"
    by (simp add: is_ntlm_def)
  show ?thesis
    using pieces prefixes new_conn_missing_challenge [
        where srv = "scripted [challenge_reply ''Negotiate, Basic realm=x'']"
          and w = "\<lparr>conns = [], resps = []\<rparr>",
        OF example_negotiate
        scripted_first [of "challenge_reply ''Negotiate, Basic realm=x''" "[]" ?q1]
        example_header [of "''Negotiate, Basic realm=x''"] none]
    by simp
qed

text \<open>
  C9. The response headers are looked up under the key \<open>www-authenticate\<close> exactly as
  written. If the first reply has no header of that name, the lookup raises \<open>KeyError\<close>.
  The exception that reports the raw header value is raised only when the first reply has
  the header, with a value none of whose pieces starts with \<open>NTLM \<close>.
\<close>

theorem new_conn_header_absent:
  "(create_NTLM_NEGOTIATE_MESSAGE nt (rawuser p) = Inr neg \<and>
    srv [handshake_get p neg] = Replies rp1 \<and>
    ''www-authenticate'' \<notin> fst ` set (getheaders rp1)
    \<longrightarrow> fst (new_conn nt srv p w) = Inl (KeyError ''www-authenticate'')) \<and>
   (fst (new_conn nt srv p w) =
      Inl (Exception (''Unexpected www-authenticate response header: '' @ x))
    \<longrightarrow> (\<exists>neg' rp1'.
          create_NTLM_NEGOTIATE_MESSAGE nt (rawuser p) = Inr neg' \<and>
          srv [handshake_get p neg'] = Replies rp1' \<and>
          ''www-authenticate'' \<in> fst ` set (getheaders rp1') \<and>
          getitem (dict_of (getheaders rp1')) ''www-authenticate'' = Inr x \<and>
          (\<forall>s\<in>set (split x '', '' (- 1)). \<not> is_ntlm s)))"
proof (intro conjI impI)
  assume a: "create_NTLM_NEGOTIATE_MESSAGE nt (rawuser p) = Inr neg \<and>
    srv [handshake_get p neg] = Replies rp1 \<and>
    ''www-authenticate'' \<notin> fst ` set (getheaders rp1)"
  then have n: "create_NTLM_NEGOTIATE_MESSAGE nt (rawuser p) = Inr neg"
    and r: "srv [handshake_get p neg] = Replies rp1"
    and g: "getitem (dict_of (getheaders rp1)) ''www-authenticate'' =
      Inl (KeyError ''www-authenticate'')"
    by (simp_all add: getitem_missing)
  from new_conn_no_header [where srv = srv and w = w, OF n r g]
  show "fst (new_conn nt srv p w) = Inl (KeyError ''www-authenticate'')"
    by simp
next
  assume "fst (new_conn nt srv p w) =
      Inl (Exception (''Unexpected www-authenticate response header: '' @ x))"
  from new_conn_unexpected_inv [OF this] obtain neg' rp1' where
    n: "create_NTLM_NEGOTIATE_MESSAGE nt (rawuser p) = Inr neg'"
    and r: "srv [handshake_get p neg'] = Replies rp1'"
    and g: "getitem (dict_of (getheaders rp1')) ''www-authenticate'' = Inr x"
    and t: "challenge_token x = None"
    by blast
  have "''www-authenticate'' \<in> fst ` set (getheaders rp1')"
  proof (rule ccontr)
    assume "''www-authenticate'' \<notin> fst ` set (getheaders rp1')"
    from getitem_missing [OF this] g show False by simp
  qed
  moreover from t have "\<forall>s\<in>set (split x '', '' (- 1)). \<not> is_ntlm s"
    by (simp add: challenge_token_def scan_values_None)
  ultimately show "\<exists>neg' rp1'.
          create_NTLM_NEGOTIATE_MESSAGE nt (rawuser p) = Inr neg' \<and>
          srv [handshake_get p neg'] = Replies rp1' \<and>
          ''www-authenticate'' \<in> fst ` set (getheaders rp1') \<and>
          getitem (dict_of (getheaders rp1')) ''www-authenticate'' = Inr x \<and>
          (\<forall>s\<in>set (split x '', '' (- 1)). \<not> is_ntlm s)"
    using n r g by blast
qed

theorem new_conn_header_absent_witness:
  "''www-authenticate'' \<notin>
     fst ` set (getheaders \<lparr>status = 401, reason = ''Unauthorized'',
                            getheaders = [(''WWW-Authenticate'', ''NTLM abc'')],
                            body = ''denied''\<rparr>) \<and>
   fst (new_conn example_codec
          (scripted [\<lparr>status = 401, reason = ''Unauthorized'',
                      getheaders = [(''WWW-Authenticate'', ''NTLM abc'')], body = ''denied''\<rparr>])
          example_pool \<lparr>conns = [], resps = []\<rparr>) = Inl (KeyError ''www-authenticate'') \<and>
   fst (new_conn example_codec (scripted [challenge_reply ''Basic realm=x''])
          example_pool \<lparr>conns = [], resps = []\<rparr>) =
     Inl (Exception (''Unexpected www-authenticate response header: '' @ ''Basic realm=x'')) \<and>
   (\<exists>neg' rp1'.
      create_NTLM_NEGOTIATE_MESSAGE example_codec (rawuser example_pool) = Inr neg' \<and>
      scripted [challenge_reply ''Basic realm=x''] [handshake_get example_pool neg'] =
        Replies rp1' \<and>
      ''www-authenticate'' \<in> fst ` set (getheaders rp1') \<and>
      getitem (dict_of (getheaders rp1')) ''www-authenticate'' = Inr ''Basic realm=x'' \<and>
      (\<forall>s\<in>set (split ''Basic realm=x'' '', '' (- 1)). \<not> is_ntlm s))"
proof -
  let ?w = "\<lparr>conns = [], resps = []\<rparr>"
  let ?q1 = "handshake_get example_pool (''neg:'' @ rawuser example_pool)"
  let ?rp = "\<lparr>status = 401, reason = ''Unauthorized'',
              getheaders = [(''WWW-Authenticate'', ''NTLM abc'')], body = ''denied''\<rparr>"
  have absent: "''www-authenticate'' \<notin> fst ` set (getheaders ?rp)"
    by simp
  have tok: "challenge_token ''Basic realm=x'' = None"
    by (simp add: challenge_token_def split_def is_ntlm_def)
  have unexpected: "fst (new_conn example_codec (scripted [challenge_reply ''Basic realm=x''])
          example_pool ?w) =
     Inl (Exception (''Unexpected www-authenticate response header: '' @ ''Basic realm=x''))"
    using new_conn_no_token [where srv = "scripted [challenge_reply ''Basic realm=x'']"
          and w = ?w, OF example_negotiate
        scripted_first [of "challenge_reply ''Basic realm=x''" "[]" ?q1]
        example_header [of "''Basic realm=x''"] tok]
    by simp
  have key: "fst (new_conn example_codec (scripted [?rp]) example_pool ?w) =
      Inl (KeyError ''www-authenticate'')"
    using new_conn_header_absent [of example_codec example_pool
        "''neg:'' @ rawuser example_pool" "scripted [?rp]" ?rp ?w "''Basic realm=x''"]
      example_negotiate scripted_first [of ?rp "[]" ?q1] absent
    by blast
  have "\<exists>neg' rp1'.
      create_NTLM_NEGOTIATE_MESSAGE example_codec (rawuser example_pool) = Inr neg' \<and>
      scripted [challenge_reply ''Basic realm=x''] [handshake_get example_pool neg'] =
        Replies rp1' \<and>
      ''www-authenticate'' \<in> fst ` set (getheaders rp1') \<and>
      getitem (dict_of (getheaders rp1')) ''www-authenticate'' = Inr ''Basic realm=x'' \<and>
      (\<forall>s\<in>set (split ''Basic realm=x'' '', '' (- 1)). \<not> is_ntlm s)"
    using new_conn_header_absent [of example_codec example_pool
        "''neg:'' @ rawuser example_pool" "scripted [challenge_reply ''Basic realm=x'']" ?rp ?w
        "''Basic realm=x''"] unexpected
    by blast
  with absent key unexpected show ?thesis
    by blast
qed

section \<open>What a returned connection has been through\<close>

lemma example_run:
  "fst (new_conn example_codec (scripted [challenge_reply ''NTLM abc'', final_reply 200 ''OK''])
          example_pool \<lparr>conns = [], resps = []\<rparr>) = Inr 0"
proof -
  let ?q1 = "handshake_get example_pool (''neg:'' @ rawuser example_pool)"
  let ?q2 = "handshake_get example_pool (''auth:'' @ ''abc'' @ '':CORP:al'')"
  have tok: "challenge_token ''NTLM abc'' = Some ''abc''"
    by (simp add: challenge_token_def split_def is_ntlm_def)
  show ?thesis
    using new_conn_resolved [
        where srv = "scripted [challenge_reply ''NTLM abc'', final_reply 200 ''OK'']"
          and w = "\<lparr>conns = [], resps = []\<rparr>",
        OF example_negotiate
        scripted_first [of "challenge_reply ''NTLM abc''" "[final_reply 200 ''OK'']" ?q1]
        example_header [of "''NTLM abc''"] tok example_parse [of "''abc''"]
        example_authenticate [of "''abc''" 7]
        scripted_second [of "challenge_reply ''NTLM abc''" "final_reply 200 ''OK''" "[]" ?q1 ?q2]]
    by (simp add: final_reply_def)
qed

lemma result_triple: "fst r = a \<Longrightarrow> r = (a, fst (snd r), snd (snd r))"
  by (cases r) auto



text \<open>
  C8. A handshake that returns a connection has sent exactly two requests on it, both
  \<open>GET\<close> for the pool's \<open>authurl\<close> with no body: the first with the negotiate token made
  from \<open>rawuser\<close>, the second with the authenticate token made from the server challenge
  and the flags that were parsed out of the challenge token of the first reply, together
  with the pool's user, domain and password. The connection is new, and the connections
  that existed before are as they were.
\<close>

theorem new_conn_two_requests:
  assumes "new_conn nt srv p w = (Inr c, p', w')"
  shows "\<exists>neg rp1 hv tok sc fl auth.
     create_NTLM_NEGOTIATE_MESSAGE nt (rawuser p) = Inr neg \<and>
     srv [\<lparr>req_method = ''GET'', req_url = authurl p, req_body = None,
           req_headers = [(''Connection'', ''Keep-Alive''),
                          (''Authorization'', ''NTLM '' @ neg)]\<rparr>] = Replies rp1 \<and>
     getitem (dict_of (getheaders rp1)) ''www-authenticate'' = Inr hv \<and>
     challenge_token hv = Some tok \<and>
     parse_NTLM_CHALLENGE_MESSAGE nt tok = Inr (sc, fl) \<and>
     create_NTLM_AUTHENTICATE_MESSAGE nt sc (user p) (domain p) (pw p) fl = Inr auth \<and>
     c = length (conns w) \<and>
     conns w' = conns w @ [conns w' ! c] \<and>
     sent (conns w' ! c) =
       [\<lparr>req_method = ''GET'', req_url = authurl p, req_body = None,
         req_headers = [(''Connection'', ''Keep-Alive''),
                        (''Authorization'', ''NTLM '' @ neg)]\<rparr>,
        \<lparr>req_method = ''GET'', req_url = authurl p, req_body = None,
         req_headers = [(''Connection'', ''Keep-Alive''),
                        (''Authorization'', ''NTLM '' @ auth)]\<rparr>]"
proof -
  from assms have "fst (new_conn nt srv p w) = Inr c"
    by simp
  from new_conn_success_inv [OF this] obtain neg rp1 hv tok sc fl auth rp2 where
    h: "create_NTLM_NEGOTIATE_MESSAGE nt (rawuser p) = Inr neg"
      "srv [handshake_get p neg] = Replies rp1"
      "getitem (dict_of (getheaders rp1)) ''www-authenticate'' = Inr hv"
      "challenge_token hv = Some tok"
      "parse_NTLM_CHALLENGE_MESSAGE nt tok = Inr (sc, fl)"
      "create_NTLM_AUTHENTICATE_MESSAGE nt sc (user p) (domain p) (pw p) fl = Inr auth"
      "srv [handshake_get p neg, handshake_get p auth] = Replies rp2"
    and ok: "status rp2 = 200"
    by blast
  from new_conn_resolved [where srv = srv and w = w, OF h] assms ok
  have c: "c = length (conns w)"
    and w': "conns w' = conns w @
           [\<lparr>conn_host = host p, conn_port = port p,
             sent = [handshake_get p neg, handshake_get p auth], sock_open = True\<rparr>]"
    by auto
  have "c = length (conns w) \<and> conns w' = conns w @ [conns w' ! c] \<and>
     sent (conns w' ! c) = [handshake_get p neg, handshake_get p auth]"
    by (simp add: c w')
  with h(1-6) show ?thesis
    by blast
qed

theorem new_conn_two_requests_witness:
  "fst (new_conn example_codec (scripted [challenge_reply ''NTLM abc'', final_reply 200 ''OK''])
          example_pool \<lparr>conns = [], resps = []\<rparr>) = Inr 0 \<and>
   (\<exists>neg rp1 hv tok sc fl auth.
     create_NTLM_NEGOTIATE_MESSAGE example_codec (rawuser example_pool) = Inr neg \<and>
     scripted [challenge_reply ''NTLM abc'', final_reply 200 ''OK'']
       [\<lparr>req_method = ''GET'', req_url = authurl example_pool, req_body = None,
         req_headers = [(''Connection'', ''Keep-Alive''),
                        (''Authorization'', ''NTLM '' @ neg)]\<rparr>] = Replies rp1 \<and>
     getitem (dict_of (getheaders rp1)) ''www-authenticate'' = Inr hv \<and>
     challenge_token hv = Some tok \<and>
     parse_NTLM_CHALLENGE_MESSAGE example_codec tok = Inr (sc, fl) \<and>
     create_NTLM_AUTHENTICATE_MESSAGE example_codec sc (user example_pool)
       (domain example_pool) (pw example_pool) fl = Inr auth \<and>
     (0::nat) = length (conns \<lparr>conns = [], resps = []\<rparr>) \<and>
     conns (snd (snd (new_conn example_codec
       (scripted [challenge_reply ''NTLM abc'', final_reply 200 ''OK''])
       example_pool \<lparr>conns = [], resps = []\<rparr>))) =
       conns \<lparr>conns = [], resps = []\<rparr> @
       [conns (snd (snd (new_conn example_codec
          (scripted [challenge_reply ''NTLM abc'', final_reply 200 ''OK''])
          example_pool \<lparr>conns = [], resps = []\<rparr>))) ! 0] \<and>
     sent (conns (snd (snd (new_conn example_codec
       (scripted [challenge_reply ''NTLM abc'', final_reply 200 ''OK''])
       example_pool \<lparr>conns = [], resps = []\<rparr>))) ! 0) =
       [\<lparr>req_method = ''GET'', req_url = authurl example_pool, req_body = None,
         req_headers = [(''Connection'', ''Keep-Alive''),
                        (''Authorization'', ''NTLM '' @ neg)]\<rparr>,
        \<lparr>req_method = ''GET'', req_url = authurl example_pool, req_body = None,
         req_headers = [(''Connection'', ''Keep-Alive''),
                        (''Authorization'', ''NTLM '' @ auth)]\<rparr>])"
  using example_run new_conn_two_requests [OF result_triple [OF example_run]]
  by (rule conjI)

section \<open>Properties of the request wrapper\<close>

lemma update_keeps_others:
  "filter (\<lambda>kv. fst kv \<noteq> k) (AList.update k v al) = filter (\<lambda>kv. fst kv \<noteq> k) al"
  by (induction al) auto

lemma urlopen_Some:
  "urlopen deleg meth url bdy (Some r) retries redirect ash h =
     deleg \<lparr>call_method = meth, call_url = url, call_body = bdy, call_headers = r,
          call_retries = retries, call_redirect = redirect, call_assert_same_host = ash\<rparr>
        (h[r := AList.update ''Connection'' ''Keep-Alive'' (h ! r)])"
  by (simp add: urlopen_def)

lemma urlopen_None:
  "urlopen deleg meth url bdy None retries redirect ash h =
     deleg \<lparr>call_method = meth, call_url = url, call_body = bdy, call_headers = length h,
          call_retries = retries, call_redirect = redirect, call_assert_same_host = ash\<rparr>
        (h @ [[(''Connection'', ''Keep-Alive'')]])"
  by (simp add: urlopen_def)

text \<open>
  C7. Whatever headers the caller passes (a dictionary of the store, or none), the generic
  pool is called with the caller's method, url and body (and retries, redirect and
  assert_same_host) and with a header dictionary \<open>ref\<close> in which \<open>Connection\<close> is
  \<open>Keep-Alive\<close>, whatever it was before, and every other key has the value the caller
  gave it; without headers the dictionary is a new one holding that entry only. Calling
  again with the same dictionary delegates with the same store: the mutation is idempotent.
\<close>

theorem urlopen_forces_keep_alive:
  assumes "case hdrs of None \<Rightarrow> True | Some r \<Rightarrow> r < length h"
  shows "\<exists>ref h'.
     (\<forall>deleg. urlopen deleg meth url bdy hdrs retries redirect ash h =
        deleg \<lparr>call_method = meth, call_url = url, call_body = bdy, call_headers = ref,
             call_retries = retries, call_redirect = redirect,
             call_assert_same_host = ash\<rparr> h') \<and>
     ref = (case hdrs of None \<Rightarrow> length h | Some r \<Rightarrow> r) \<and>
     ref < length h' \<and>
     map_of (h' ! ref) ''Connection'' = Some ''Keep-Alive'' \<and>
     (\<forall>k. k \<noteq> ''Connection'' \<longrightarrow>
        map_of (h' ! ref) k = (case hdrs of None \<Rightarrow> None | Some r \<Rightarrow> map_of (h ! r) k)) \<and>
     (\<forall>deleg. urlopen deleg meth url bdy (Some ref) retries redirect ash h' =
        deleg \<lparr>call_method = meth, call_url = url, call_body = bdy, call_headers = ref,
             call_retries = retries, call_redirect = redirect,
             call_assert_same_host = ash\<rparr> h')"
proof (cases hdrs)
  case None
  let ?h' = "h @ [[(''Connection'', ''Keep-Alive'')]]"
  have "\<forall>deleg. urlopen deleg meth url bdy (Some (length h)) retries redirect ash ?h' =
        deleg \<lparr>call_method = meth, call_url = url, call_body = bdy, call_headers = length h,
             call_retries = retries, call_redirect = redirect,
             call_assert_same_host = ash\<rparr> ?h'"
    by (simp add: urlopen_Some)
  then show ?thesis
    unfolding None
    by (intro exI [of _ "length h"] exI [of _ ?h']) (simp add: urlopen_None)
next
  case (Some r)
  with assms have r: "r < length h"
    by simp
  let ?h' = "h[r := AList.update ''Connection'' ''Keep-Alive'' (h ! r)]"
  have "\<forall>deleg. urlopen deleg meth url bdy (Some r) retries redirect ash ?h' =
        deleg \<lparr>call_method = meth, call_url = url, call_body = bdy, call_headers = r,
             call_retries = retries, call_redirect = redirect,
             call_assert_same_host = ash\<rparr> ?h'"
    using r by (simp add: urlopen_Some)
  then show ?thesis
    unfolding Some using r
    by (intro exI [of _ r] exI [of _ ?h']) (simp add: urlopen_Some update_conv')
qed

theorem urlopen_forces_keep_alive_witness:
  "urlopen Pair ''GET'' ''/x'' None (Some 0) 3 True True
     [[(''Accept'', ''text''), (''Connection'', ''close'')]] =
     (\<lparr>call_method = ''GET'', call_url = ''/x'', call_body = None, call_headers = 0,
       call_retries = 3, call_redirect = True, call_assert_same_host = True\<rparr>,
      [[(''Accept'', ''text''), (''Connection'', ''Keep-Alive'')]]) \<and>
   urlopen Pair ''GET'' ''/x'' None None 3 True True [] =
     (\<lparr>call_method = ''GET'', call_url = ''/x'', call_body = None, call_headers = 0,
       call_retries = 3, call_redirect = True, call_assert_same_host = True\<rparr>,
      [[(''Connection'', ''Keep-Alive'')]])"
proof -
  let ?h = "[[(''Accept'', ''text''), (''Connection'', ''close'')]]"
  have a: "case Some (0::nat) of None \<Rightarrow> True | Some r \<Rightarrow> r < length ?h"
    by simp
  have b: "case (None::nat option) of None \<Rightarrow> True
           | Some r \<Rightarrow> r < length ([]::dict list)"
    by simp
  from urlopen_forces_keep_alive [OF a, of "''GET''" "''/x''" None 3 True True]
  obtain ref h' where
    1: "\<forall>deleg :: urlopen_call \<Rightarrow> dict list \<Rightarrow> urlopen_call \<times> dict list.
        urlopen deleg ''GET'' ''/x'' None (Some 0) 3 True True ?h =
        deleg \<lparr>call_method = ''GET'', call_url = ''/x'', call_body = None, call_headers = ref,
             call_retries = 3, call_redirect = True, call_assert_same_host = True\<rparr> h'"
    and 2: "ref = 0"
    by auto
  from urlopen_forces_keep_alive [OF b, of "''GET''" "''/x''" None 3 True True]
  obtain ref2 h2 where
    3: "\<forall>deleg :: urlopen_call \<Rightarrow> dict list \<Rightarrow> urlopen_call \<times> dict list.
        urlopen deleg ''GET'' ''/x'' None None 3 True True [] =
        deleg \<lparr>call_method = ''GET'', call_url = ''/x'', call_body = None, call_headers = ref2,
             call_retries = 3, call_redirect = True, call_assert_same_host = True\<rparr> h2"
    and 4: "ref2 = 0"
    by auto
  from 1 have "snd (urlopen Pair ''GET'' ''/x'' None (Some 0) 3 True True ?h) = h'"
    by simp
  then have h': "h' = [[(''Accept'', ''text''), (''Connection'', ''Keep-Alive'')]]"
    by (simp add: urlopen_Some)
  from 3 have "snd (urlopen Pair ''GET'' ''/x'' None None 3 True True []) = h2"
    by simp
  then have h2: "h2 = [[(''Connection'', ''Keep-Alive'')]]"
    by (simp add: urlopen_None)
  from 1 2 h' 3 4 h2 show ?thesis
    by simp
qed

text \<open>
  C10. A dictionary the caller passes (empty or not: the source tests \<open>is None\<close>) is
  changed where it is: the generic pool receives the caller's own reference \<open>r\<close>, the
  store has no new object, every other object is untouched, and in the caller's
  dictionary \<open>Connection\<close> is \<open>Keep-Alive\<close> while the other entries are the same, in
  the same order. If the generic pool leaves the store alone, this is the caller's
  dictionary after the call.
\<close>

theorem urlopen_mutates_in_place:
  assumes "r < length h"
  shows "\<exists>h'.
     (\<forall>deleg. urlopen deleg meth url bdy (Some r) retries redirect ash h =
        deleg \<lparr>call_method = meth, call_url = url, call_body = bdy, call_headers = r,
             call_retries = retries, call_redirect = redirect,
             call_assert_same_host = ash\<rparr> h') \<and>
     length h' = length h \<and>
     (\<forall>r'. r' \<noteq> r \<longrightarrow> h' ! r' = h ! r') \<and>
     map_of (h' ! r) ''Connection'' = Some ''Keep-Alive'' \<and>
     filter (\<lambda>kv. fst kv \<noteq> ''Connection'') (h' ! r) =
       filter (\<lambda>kv. fst kv \<noteq> ''Connection'') (h ! r) \<and>
     (\<forall>deleg. (\<forall>c g. snd (deleg c g) = g) \<longrightarrow>
        snd (urlopen deleg meth url bdy (Some r) retries redirect ash h) = h')"
  using assms
  by (intro exI [of _ "h[r := AList.update ''Connection'' ''Keep-Alive'' (h ! r)]"])
    (simp add: urlopen_Some update_conv' update_keeps_others)

theorem urlopen_mutates_in_place_witness:
  "(0::nat) < length [[(''Connection'', ''close''), (''Accept'', ''text'')], [(''X'', ''y'')]] \<and>
   urlopen Pair ''GET'' ''/x'' None (Some 0) 3 True True
     [[(''Connection'', ''close''), (''Accept'', ''text'')], [(''X'', ''y'')]] =
     (\<lparr>call_method = ''GET'', call_url = ''/x'', call_body = None, call_headers = 0,
       call_retries = 3, call_redirect = True, call_assert_same_host = True\<rparr>,
      [[(''Connection'', ''Keep-Alive''), (''Accept'', ''text'')], [(''X'', ''y'')]])"
proof -
  let ?h = "[[(''Connection'', ''close''), (''Accept'', ''text'')], [(''X'', ''y'')]]"
  have a: "(0::nat) < length ?h"
    by simp
  from urlopen_mutates_in_place [OF a, of "''GET''" "''/x''" None 3 True True]
  obtain h' where
    1: "\<forall>deleg :: urlopen_call \<Rightarrow> dict list \<Rightarrow> urlopen_call \<times> dict list.
        urlopen deleg ''GET'' ''/x'' None (Some 0) 3 True True ?h =
        deleg \<lparr>call_method = ''GET'', call_url = ''/x'', call_body = None, call_headers = 0,
             call_retries = 3, call_redirect = True, call_assert_same_host = True\<rparr> h'"
    by auto
  then have "snd (urlopen Pair ''GET'' ''/x'' None (Some 0) 3 True True ?h) = h'"
    by simp
  then have "h' = [[(''Connection'', ''Keep-Alive''), (''Accept'', ''text'')], [(''X'', ''y'')]]"
    by (simp add: urlopen_Some)
  with 1 a show ?thesis
    by simp
qed

end
